theory Spec2Isabelle
  imports Complex_Main "HOL-Library.Sublist" "HOL-Library.Multiset"
begin

section \<open>Python values used by the pipeline\<close>

text \<open>
  A Python \<open>str\<close> is a sequence of Unicode code points and \<open>len\<close> counts code points, so a
  string is modelled as the list of its code points. ASCII literals of the source are
  written \<open>u ''...''\<close>.
\<close>

type_synonym ustr = "nat list"

definition u :: "string \<Rightarrow> ustr" where
  "u s = map of_char s"

definition nl :: ustr where
  "nl = [10]"

text \<open>\<open>sep.join(xs)\<close>\<close>

fun py_join :: "ustr \<Rightarrow> ustr list \<Rightarrow> ustr" where
  "py_join sep [] = []"
| "py_join sep [x] = x"
| "py_join sep (x # y # ys) = x @ sep @ py_join sep (y # ys)"

text \<open>\<open>xs[:n]\<close> for a Python int \<open>n\<close>: a negative bound counts from the end.\<close>

definition slice_to :: "int \<Rightarrow> 'a list \<Rightarrow> 'a list" where
  "slice_to n xs = (if 0 \<le> n then take (nat n) xs else take (length xs - nat (- n)) xs)"

text \<open>\<open>str(n)\<close> for an int, as an f-string formats it.\<close>

fun str_nat :: "nat \<Rightarrow> ustr" where
  "str_nat n = (if n < 10 then [48 + n] else str_nat (n div 10) @ [48 + n mod 10])"

declare str_nat.simps [simp del]

definition str_int :: "int \<Rightarrow> ustr" where
  "str_int i = (if i < 0 then 45 # str_nat (nat (- i)) else str_nat (nat i))"

text \<open>
  \<open>s.strip()\<close>: removes leading and trailing whitespace, the code points for which
  \<open>str.isspace\<close> holds.
\<close>

definition isspace :: "nat \<Rightarrow> bool" where
  "isspace c \<longleftrightarrow> (9 \<le> c \<and> c \<le> 13) \<or> (28 \<le> c \<and> c \<le> 32) \<or> c = 133 \<or> c = 160 \<or> c = 5760
     \<or> (8192 \<le> c \<and> c \<le> 8202) \<or> c = 8232 \<or> c = 8233 \<or> c = 8239 \<or> c = 8287 \<or> c = 12288"

definition py_strip :: "ustr \<Rightarrow> ustr" where
  "py_strip s = rev (dropWhile isspace (rev (dropWhile isspace s)))"

text \<open>
  Exceptions of class \<open>Exception\<close>, as values. \<open>Timeout\<close> is \<open>requests.exceptions.Timeout\<close>
  (and its subclasses), \<open>KeyError\<close> carries the missing key, \<open>Exception\<close> stands for every other
  subclass of \<open>Exception\<close>; the payload is the message \<open>str(e)\<close>.
\<close>

datatype exn = Timeout ustr | KeyError ustr | Exception ustr

fun str_exn :: "exn \<Rightarrow> ustr" where
  "str_exn (Timeout m) = m"
| "str_exn (KeyError k) = [39] @ k @ [39]"
| "str_exn (Exception m) = m"

section \<open>Configuration (\<open>core/config.py\<close>)\<close>

record config =
  TOP_K_VECTOR_SEARCH :: int
  VECTOR_INDEX_NAME :: ustr
  TOP_N_RERANKED :: int
  OLLAMA_MODEL :: ustr
  OLLAMA_API_URL :: ustr
  OLLAMA_TEMPERATURE :: real
  OLLAMA_MAX_TOKENS :: int
  SYSTEM_PROMPT :: ustr
  ENHANCED_CONTEXT_FORMAT :: bool
  MIN_SIMILARITY_THRESHOLD :: real
  MAX_CONTEXT_LENGTH :: int

definition system_prompt :: ustr where
  "system_prompt =
     u ''You are a medical information assistant that provides accurate, fact-based answers.'' @ nl @
     nl @
     u ''CRITICAL RULES:'' @ nl @
     u ''1. Answer ONLY using the provided context from the knowledge base'' @ nl @
     u ''2. If information is not in the context, say '' @ [34] @
     u ''I don't have that information in my knowledge base'' @ [34] @ nl @
     u ''3. Never make up or infer information not explicitly stated in the context'' @ nl @
     u ''4. Always mention the source (substance name and section) when providing information'' @ nl @
     u ''5. If the context is insufficient, acknowledge the limitation'' @ nl @
     nl @
     u ''You are helpful but cautious. Medical accuracy is your top priority.''"

definition default_config :: config where
  "default_config = \<lparr>
     TOP_K_VECTOR_SEARCH = 10,
     VECTOR_INDEX_NAME = u ''section_embeddings'',
     TOP_N_RERANKED = 3,
     OLLAMA_MODEL = u ''mistral:7b'',
     OLLAMA_API_URL = u ''http://localhost:11434/api/generate'',
     OLLAMA_TEMPERATURE = 0.1,
     OLLAMA_MAX_TOKENS = 1000,
     SYSTEM_PROMPT = system_prompt,
     ENHANCED_CONTEXT_FORMAT = True,
     MIN_SIMILARITY_THRESHOLD = 0.3,
     MAX_CONTEXT_LENGTH = 8000 \<rparr>"

section \<open>Vector search (\<open>core/vector_search.py\<close>)\<close>

text \<open>
  One row of the index query, and the section dict that \<open>vector_search\<close> builds from it.
  A subgraph dict has the keys of a section dict plus \<open>entities\<close>; \<open>rerank\<close> later adds the
  key \<open>cross_encoder_score\<close>, which is absent (\<open>None\<close>) until then.
\<close>

record row =
  row_node_id :: ustr
  row_substance_name :: ustr
  row_section_name :: ustr
  row_section_text :: ustr
  row_word_count :: int
  row_entity_count :: int
  row_score :: real

record sect =
  node_id :: ustr
  substance_name :: ustr
  section_name :: ustr
  section_text :: ustr
  word_count :: int
  entity_count :: int
  similarity_score :: real

record subgraph = sect +
  entities :: "ustr list"
  cross_encoder_score :: "real option"

text \<open>
  The external collaborators of the searcher: the embedding model (\<open>encode\<close>), the index
  query \<open>db.index.vector.queryNodes\<close> (index name, top-k, query vector) and the
  \<open>MENTIONS\<close> traversal keyed by substance and section name. Each may raise.
\<close>

record searcher =
  encode :: "ustr \<Rightarrow> exn + real list"
  query_nodes :: "ustr \<Rightarrow> int \<Rightarrow> real list \<Rightarrow> exn + row list"
  mentions :: "ustr \<Rightarrow> ustr \<Rightarrow> exn + ustr list"

definition generate_query_embedding :: "searcher \<Rightarrow> ustr \<Rightarrow> exn + real list" where
  "generate_query_embedding vs query = encode vs query"

definition section_of_row :: "row \<Rightarrow> sect" where
  "section_of_row r = \<lparr>
     node_id = row_node_id r,
     substance_name = row_substance_name r,
     section_name = row_section_name r,
     section_text = row_section_text r,
     word_count = row_word_count r,
     entity_count = row_entity_count r,
     similarity_score = row_score r \<rparr>"

definition vector_search :: "config \<Rightarrow> searcher \<Rightarrow> ustr \<Rightarrow> int option \<Rightarrow> exn + sect list" where
  "vector_search cfg vs query top_k_opt =
     (let top_k = (case top_k_opt of None \<Rightarrow> TOP_K_VECTOR_SEARCH cfg | Some k \<Rightarrow> k) in
      case generate_query_embedding vs query of
        Inl e \<Rightarrow> Inl e
      | Inr query_embedding \<Rightarrow>
          (case query_nodes vs (VECTOR_INDEX_NAME cfg) top_k query_embedding of
             Inl e \<Rightarrow> Inl e
           | Inr result \<Rightarrow> Inr (map section_of_row result)))"

definition get_section_entities :: "searcher \<Rightarrow> ustr \<Rightarrow> ustr \<Rightarrow> exn + ustr list" where
  "get_section_entities vs substance section = mentions vs substance section"

definition build_subgraph_context :: "searcher \<Rightarrow> sect \<Rightarrow> exn + subgraph" where
  "build_subgraph_context vs s =
     (case get_section_entities vs (substance_name s) (section_name s) of
        Inl e \<Rightarrow> Inl e
      | Inr ents \<Rightarrow> Inr \<lparr>
          node_id = node_id s,
          substance_name = substance_name s,
          section_name = section_name s,
          section_text = section_text s,
          word_count = word_count s,
          entity_count = entity_count s,
          similarity_score = similarity_score s,
          entities = ents,
          cross_encoder_score = None \<rparr>)"

text \<open>The loop of \<open>search_with_subgraphs\<close> over the retained sections; the first lookup that
  raises ends it.\<close>

fun build_subgraphs :: "searcher \<Rightarrow> sect list \<Rightarrow> exn + subgraph list" where
  "build_subgraphs vs [] = Inr []"
| "build_subgraphs vs (s # ss) =
     (case build_subgraph_context vs s of
        Inl e \<Rightarrow> Inl e
      | Inr sg \<Rightarrow>
          (case build_subgraphs vs ss of
             Inl e \<Rightarrow> Inl e
           | Inr sgs \<Rightarrow> Inr (sg # sgs)))"

definition above_threshold :: "config \<Rightarrow> sect list \<Rightarrow> sect list" where
  "above_threshold cfg sections =
     filter (\<lambda>s. MIN_SIMILARITY_THRESHOLD cfg \<le> similarity_score s) sections"

definition search_with_subgraphs ::
  "config \<Rightarrow> searcher \<Rightarrow> ustr \<Rightarrow> int option \<Rightarrow> exn + subgraph list" where
  "search_with_subgraphs cfg vs query top_k =
     (case vector_search cfg vs query top_k of
        Inl e \<Rightarrow> Inl e
      | Inr sections \<Rightarrow>
          (let sections = above_threshold cfg sections in
           if sections = [] then Inr []
           else build_subgraphs vs sections))"

section \<open>Cross-encoder re-ranking (\<open>core/cross_encoder_ranker.py\<close>)\<close>

text \<open>
  \<open>rerank\<close> writes into the dicts of its argument list, and the list it returns holds
  those same dicts. The dicts therefore live in a store: an address (\<open>ref\<close>) names a dict
  object, the heap gives every object's current contents, and a Python list of dicts is
  a list of addresses.
\<close>

type_synonym ref = nat

type_synonym heap = "ref \<Rightarrow> subgraph"

text \<open>\<open>CrossEncoder.predict\<close>: the external pairwise scorer, called once on the batch of
  (query, context) pairs. It may raise.\<close>

type_synonym scorer = "(ustr \<times> ustr) list \<Rightarrow> exn + real list"

definition prepare_pair :: "config \<Rightarrow> ustr \<Rightarrow> subgraph \<Rightarrow> ustr" where
  "prepare_pair cfg query sg =
     (if ENHANCED_CONTEXT_FORMAT cfg then
        (let entities_str = py_join (u '', '') (take 20 (entities sg)) in
         u ''Substance: '' @ substance_name sg @ nl @
         u ''Section: '' @ section_name sg @ nl @
         u ''Content: '' @ section_text sg @ nl @
         u ''Related Medical Terms: '' @ entities_str)
      else section_text sg)"

definition make_pairs :: "config \<Rightarrow> ustr \<Rightarrow> heap \<Rightarrow> ref list \<Rightarrow> (ustr \<times> ustr) list" where
  "make_pairs cfg query h subgraphs = map (\<lambda>r. (query, prepare_pair cfg query (h r))) subgraphs"

text \<open>\<open>for subgraph, score in zip(subgraphs, scores): subgraph['cross_encoder_score'] = float(score)\<close>\<close>

fun add_scores :: "heap \<Rightarrow> (ref \<times> real) list \<Rightarrow> heap" where
  "add_scores h [] = h"
| "add_scores h ((r, score) # rest) =
     add_scores (h(r := (h r)\<lparr>cross_encoder_score := Some score\<rparr>)) rest"

text \<open>
  \<open>sorted(subgraphs, key=lambda x: x['cross_encoder_score'], reverse=True)\<close>. The key is
  computed for every element first, so a dict without the key raises \<open>KeyError\<close>. Python's
  sort is stable, and with \<open>reverse=True\<close> it reverses the list, sorts it ascending and
  stably, and reverses the outcome.
\<close>

definition has_score :: "heap \<Rightarrow> ref \<Rightarrow> bool" where
  "has_score h r = (case cross_encoder_score (h r) of Some x \<Rightarrow> True | None \<Rightarrow> False)"

definition score_of :: "heap \<Rightarrow> ref \<Rightarrow> real" where
  "score_of h r = (case cross_encoder_score (h r) of Some x \<Rightarrow> x | None \<Rightarrow> 0)"

definition sorted_by_score_desc :: "heap \<Rightarrow> ref list \<Rightarrow> exn + ref list" where
  "sorted_by_score_desc h subgraphs =
     (if list_all (has_score h) subgraphs
      then Inr (rev (sort_key (score_of h) (rev subgraphs)))
      else Inl (KeyError (u ''cross_encoder_score'')))"

text \<open>\<open>if top_n is None: top_n = config.TOP_N_RERANKED\<close>\<close>

definition top_n_or_default :: "config \<Rightarrow> int option \<Rightarrow> int" where
  "top_n_or_default cfg top_n_opt =
     (case top_n_opt of None \<Rightarrow> TOP_N_RERANKED cfg | Some n \<Rightarrow> n)"

definition rerank ::
  "config \<Rightarrow> scorer \<Rightarrow> ustr \<Rightarrow> heap \<Rightarrow> ref list \<Rightarrow> int option \<Rightarrow> (exn + ref list) \<times> heap" where
  "rerank cfg predict query h subgraphs top_n_opt =
     (let top_n = top_n_or_default cfg top_n_opt in
      if subgraphs = [] then (Inr [], h)
      else
        (let pairs = make_pairs cfg query h subgraphs in
         case predict pairs of
           Inl e \<Rightarrow> (Inl e, h)
         | Inr scores \<Rightarrow>
             (let h' = add_scores h (zip subgraphs scores) in
              case sorted_by_score_desc h' subgraphs of
                Inl e \<Rightarrow> (Inl e, h')
              | Inr reranked \<Rightarrow> (Inr (slice_to top_n reranked), h'))))"

section \<open>Answer generation (\<open>core/llm_generator.py\<close>)\<close>

text \<open>\<open>for i, subgraph in enumerate(subgraphs, 1)\<close>: one block per subgraph.\<close>

definition context_block :: "nat \<Rightarrow> subgraph \<Rightarrow> ustr" where
  "context_block i sg =
     (let entities_str = py_join (u '', '') (take 15 (entities sg)) in
      u ''[Source '' @ str_nat i @ u '']'' @ nl @
      u ''Substance: '' @ substance_name sg @ nl @
      u ''Section: '' @ section_name sg @ nl @
      nl @
      u ''Content:'' @ nl @
      section_text sg @ nl @
      nl @
      u ''Related Medical Terms: '' @ entities_str @ nl)"

fun context_blocks :: "nat \<Rightarrow> subgraph list \<Rightarrow> ustr list" where
  "context_blocks i [] = []"
| "context_blocks i (sg # sgs) = context_block i sg # context_blocks (Suc i) sgs"

definition truncation_marker :: ustr where
  "truncation_marker = nl @ u ''...(truncated)''"

text \<open>The rule of the source is eighty times the box-drawing code point U+2500 (9472).\<close>

definition format_context :: "config \<Rightarrow> subgraph list \<Rightarrow> ustr" where
  "format_context cfg subgraphs =
     (let formatted_contexts = context_blocks 1 subgraphs;
          full_context = nl @ replicate 80 9472 @ py_join nl formatted_contexts
      in if int (length full_context) > MAX_CONTEXT_LENGTH cfg
         then slice_to (MAX_CONTEXT_LENGTH cfg) full_context @ truncation_marker
         else full_context)"

definition build_prompt :: "config \<Rightarrow> ustr \<Rightarrow> subgraph list \<Rightarrow> ustr" where
  "build_prompt cfg query subgraphs =
     (let context = format_context cfg subgraphs in
      SYSTEM_PROMPT cfg @ nl @
      nl @
      context @ nl @
      nl @
      replicate 80 61 @ nl @
      nl @
      u ''User Question: '' @ query @ nl @
      nl @
      u ''Instructions:'' @ nl @
      u ''- Answer using ONLY the information provided in the sources above'' @ nl @
      u ''- Mention which substance and section your answer comes from'' @ nl @
      u ''- If the information is not in the sources, clearly state this'' @ nl @
      u ''- Be helpful but never make up information'' @ nl @
      nl @
      u ''Answer:'')"

text \<open>
  The generation service. A request is the URL, the JSON payload and the timeout of
  \<open>requests.post\<close>. The call either raises or returns a response with a status code and a
  body; reading the body (\<open>response.json()\<close>, then \<open>.get('response', '').strip()\<close>) either
  raises (not JSON, not an object, or a \<open>response\<close> entry that is not a string) or finds a
  JSON object with or without a \<open>response\<close> string.
\<close>

record payload =
  p_model :: ustr
  p_prompt :: ustr
  p_stream :: bool
  p_temperature :: real
  p_num_predict :: int

record request =
  url :: ustr
  json :: payload
  timeout :: nat

datatype body = BodyRaises exn | BodyObject "ustr option"

datatype outcome = Raises exn | Response int body

type_synonym service = "request \<Rightarrow> outcome"

record source =
  src_substance_name :: ustr
  src_section_name :: ustr
  src_similarity_score :: real
  src_cross_encoder_score :: real

text \<open>The dict returned by \<open>generate_answer\<close>; the keys \<open>model\<close> and \<open>temperature\<close> are only
  present in the dict of the successful path.\<close>

record llm_result =
  llm_answer :: ustr
  llm_sources :: "source list"
  llm_error :: "ustr option"
  llm_model :: "ustr option"
  llm_temperature :: "real option"

definition no_information_answer :: ustr where
  "no_information_answer =
     u ''I don't have any relevant information in my knowledge base to answer this question.''"

definition error_answer :: ustr where
  "error_answer = u ''Error generating answer. Please try again.''"

definition timeout_answer :: ustr where
  "timeout_answer = u ''Answer generation timed out. Please try again with a simpler question.''"

definition source_of :: "subgraph \<Rightarrow> source" where
  "source_of sg = \<lparr>
     src_substance_name = substance_name sg,
     src_section_name = section_name sg,
     src_similarity_score = similarity_score sg,
     src_cross_encoder_score = (case cross_encoder_score sg of Some x \<Rightarrow> x | None \<Rightarrow> 0) \<rparr>"

text \<open>The two \<open>except\<close> clauses of \<open>generate_answer\<close>, in the source's order.\<close>

fun is_timeout :: "exn \<Rightarrow> bool" where
  "is_timeout (Timeout m) = True"
| "is_timeout (KeyError k) = False"
| "is_timeout (Exception m) = False"

definition on_exception :: "exn \<Rightarrow> llm_result" where
  "on_exception e =
     (if is_timeout e then \<lparr>
          llm_answer = timeout_answer,
          llm_sources = [],
          llm_error = Some (u ''Ollama request timed out''),
          llm_model = None, llm_temperature = None \<rparr>
      else \<lparr>
          llm_answer = error_answer,
          llm_sources = [],
          llm_error = Some (u ''Error calling Ollama: '' @ str_exn e),
          llm_model = None, llm_temperature = None \<rparr>)"

definition make_request :: "config \<Rightarrow> ustr \<Rightarrow> request" where
  "make_request cfg prompt = \<lparr>
     url = OLLAMA_API_URL cfg,
     json = \<lparr>
       p_model = OLLAMA_MODEL cfg,
       p_prompt = prompt,
       p_stream = False,
       p_temperature = OLLAMA_TEMPERATURE cfg,
       p_num_predict = OLLAMA_MAX_TOKENS cfg \<rparr>,
     timeout = 120 \<rparr>"

text \<open>
  \<open>generate_answer\<close> returns its result dict together with the requests it sent to the
  generation service, in order. Every path of the source ends in a \<open>return\<close>, so no
  exception leaves it.
\<close>

definition generate_answer ::
  "config \<Rightarrow> service \<Rightarrow> ustr \<Rightarrow> subgraph list \<Rightarrow> llm_result \<times> request list" where
  "generate_answer cfg post query subgraphs =
     (if subgraphs = [] then
        (\<lparr> llm_answer = no_information_answer,
           llm_sources = [],
           llm_error = None,
           llm_model = None, llm_temperature = None \<rparr>, [])
      else
        (let prompt = build_prompt cfg query subgraphs;
             req = make_request cfg prompt
         in case post req of
              Raises e \<Rightarrow> (on_exception e, [req])
            | Response status_code b \<Rightarrow>
                if status_code \<noteq> 200 then
                  (\<lparr> llm_answer = error_answer,
                     llm_sources = [],
                     llm_error = Some (u ''Ollama API error: '' @ str_int status_code),
                     llm_model = None, llm_temperature = None \<rparr>, [req])
                else
                  (case b of
                     BodyRaises e \<Rightarrow> (on_exception e, [req])
                   | BodyObject response \<Rightarrow>
                       (let answer = py_strip (case response of Some t \<Rightarrow> t | None \<Rightarrow> []);
                            sources = map source_of subgraphs
                        in (\<lparr> llm_answer = answer,
                              llm_sources = sources,
                              llm_error = None,
                              llm_model = Some (OLLAMA_MODEL cfg),
                              llm_temperature = Some (OLLAMA_TEMPERATURE cfg) \<rparr>, [req])))))"

section \<open>The orchestrator (\<open>core/query_pipeline.py\<close>)\<close>

text \<open>The \<open>timing\<close> dict: a key is absent (\<open>None\<close>) until its stage has been timed.\<close>

record timing =
  vector_search_time :: "real option"
  reranking_time :: "real option"
  llm_generation_time :: "real option"
  total_time :: "real option"

record query_result =
  query :: ustr
  answer :: "ustr option"
  sources :: "source list"
  error :: "ustr option"
  timings :: timing


definition no_results_answer :: ustr where
  "no_results_answer =
     u ''I couldn't find any relevant information in my knowledge base for this question.''"

definition pipeline_error_answer :: ustr where
  "pipeline_error_answer =
     u ''An error occurred while processing your question. Please try again.''"

text \<open>The dicts that \<open>build_subgraph_context\<close> creates are new objects: they are placed at
  the free addresses \<open>n\<close>, \<open>n + 1\<close>, ... of the heap.\<close>

fun alloc :: "heap \<Rightarrow> ref \<Rightarrow> subgraph list \<Rightarrow> heap \<times> ref list" where
  "alloc h n [] = (h, [])"
| "alloc h n (sg # sgs) = (case alloc (h(n := sg)) (Suc n) sgs of (h', rs) \<Rightarrow> (h', n # rs))"






section \<open>Concrete inputs\<close>

text \<open>Three rows with the similarities 0.85, 0.72 and 0.40, and a store that returns them.\<close>

definition mk_row :: "ustr \<Rightarrow> real \<Rightarrow> row" where
  "mk_row name s = \<lparr>
     row_node_id = name,
     row_substance_name = u ''Asparagus'',
     row_section_name = name,
     row_section_text = u ''Usually well tolerated.'',
     row_word_count = 3,
     row_entity_count = 0,
     row_score = s \<rparr>"

definition mock_rows :: "row list" where
  "mock_rows = [mk_row (u ''Safety'') 0.85, mk_row (u ''AdverseEffects'') 0.72,
                mk_row (u ''Dosing'') 0.40]"

definition mock_searcher :: searcher where
  "mock_searcher = \<lparr>
     encode = (\<lambda>t. Inr []),
     query_nodes = (\<lambda>i k v. Inr mock_rows),
     mentions = (\<lambda>a b. Inr []) \<rparr>"

text \<open>The same store, whose term lookup fails for the section \<open>AdverseEffects\<close>.\<close>

definition failing_lookup_searcher :: searcher where
  "failing_lookup_searcher = mock_searcher\<lparr>
     mentions := (\<lambda>a b. if b = u ''AdverseEffects''
                         then Inl (Exception (u ''connection lost'')) else Inr []) \<rparr>"

definition mk_subgraph :: "ustr \<Rightarrow> real \<Rightarrow> subgraph" where
  "mk_subgraph name s = \<lparr>
     node_id = name,
     substance_name = u ''Asparagus'',
     section_name = name,
     section_text = u ''Usually well tolerated.'',
     word_count = 3,
     entity_count = 0,
     similarity_score = s,
     entities = [],
     cross_encoder_score = None \<rparr>"

definition mock_subgraphs :: "subgraph list" where
  "mock_subgraphs = [mk_subgraph (u ''Safety'') 0.85, mk_subgraph (u ''AdverseEffects'') 0.72,
                     mk_subgraph (u ''Dosing'') 0.40]"

text \<open>A heap that holds the three dicts at the addresses 10, 11 and 12.\<close>

definition mock_heap :: heap where
  "mock_heap = (\<lambda>r. mk_subgraph (u ''Safety'') 0.85)
     (11 := mk_subgraph (u ''AdverseEffects'') 0.72, 12 := mk_subgraph (u ''Dosing'') 0.40)"

text \<open>Scorers: one with the relevance scores 0.6, 0.9, 0.3, one with a tie between the
  first and the third candidate, and one that scores every pair of any batch.\<close>

definition mock_scorer :: scorer where
  "mock_scorer pairs = Inr [0.6, 0.9, 0.3]"

definition tie_scorer :: scorer where
  "tie_scorer pairs = Inr [0.5, 0.9, 0.5]"




definition timeout_service :: service where
  "timeout_service req = Raises (Timeout (u ''Read timed out.''))"

definition refusing_service :: service where
  "refusing_service req = Raises (Exception (u ''Connection refused''))"

definition erroring_service :: service where
  "erroring_service req = Response 500 (BodyObject None)"





section \<open>Properties of answer generation\<close>

lemma fixed_answers_nonempty:
  "no_information_answer \<noteq> []" "error_answer \<noteq> []" "timeout_answer \<noteq> []"
  "no_results_answer \<noteq> []" "pipeline_error_answer \<noteq> []"
  by (simp_all add: no_information_answer_def error_answer_def timeout_answer_def
        no_results_answer_def pipeline_error_answer_def u_def)

lemma mock_subgraphs_nonempty: "mock_subgraphs \<noteq> []"
  by (simp add: mock_subgraphs_def)

lemma length_truncation_marker: "length truncation_marker = 15"
  by (simp add: truncation_marker_def nl_def u_def)

text \<open>
  Claim C5. For every query, \<open>generate_answer\<close> on an empty candidate list returns the
  fixed no-relevant-information answer, no sources and no error, and sends no request
  to the generation service.
\<close>

theorem generate_answer_empty:
  "generate_answer cfg post q [] =
     (\<lparr> llm_answer = no_information_answer, llm_sources = [], llm_error = None,
        llm_model = None, llm_temperature = None \<rparr>, [])
   \<and> length (snd (generate_answer cfg post q [])) = 0"
  by (simp add: generate_answer_def)

text \<open>
  Claim C6. For every query and every non-empty candidate list, when the call of the
  generation service raises a timeout, raises any other exception, or returns a status
  other than 200, \<open>generate_answer\<close> returns a result: its answer is the fixed timeout
  message in the first case and the fixed error message in the other two, its sources are
  empty and its error field holds the diagnostic string of that case. Both fixed messages
  are non-empty.
\<close>

theorem generate_answer_service_failure:
  assumes "subgraphs \<noteq> []"
  shows "(post (make_request cfg (build_prompt cfg q subgraphs)) = Raises e \<and> is_timeout e \<longrightarrow>
            generate_answer cfg post q subgraphs =
              (\<lparr> llm_answer = timeout_answer, llm_sources = [],
                 llm_error = Some (u ''Ollama request timed out''),
                 llm_model = None, llm_temperature = None \<rparr>,
               [make_request cfg (build_prompt cfg q subgraphs)]))
       \<and> (post (make_request cfg (build_prompt cfg q subgraphs)) = Raises e \<and> \<not> is_timeout e \<longrightarrow>
            generate_answer cfg post q subgraphs =
              (\<lparr> llm_answer = error_answer, llm_sources = [],
                 llm_error = Some (u ''Error calling Ollama: '' @ str_exn e),
                 llm_model = None, llm_temperature = None \<rparr>,
               [make_request cfg (build_prompt cfg q subgraphs)]))
       \<and> (post (make_request cfg (build_prompt cfg q subgraphs)) = Response status b
            \<and> status \<noteq> 200 \<longrightarrow>
            generate_answer cfg post q subgraphs =
              (\<lparr> llm_answer = error_answer, llm_sources = [],
                 llm_error = Some (u ''Ollama API error: '' @ str_int status),
                 llm_model = None, llm_temperature = None \<rparr>,
               [make_request cfg (build_prompt cfg q subgraphs)]))
       \<and> timeout_answer \<noteq> [] \<and> error_answer \<noteq> []"
  using assms
  by (simp add: generate_answer_def Let_def on_exception_def fixed_answers_nonempty)

theorem generate_answer_service_failure_witness:
  "mock_subgraphs \<noteq> []
   \<and> llm_answer (fst (generate_answer default_config timeout_service [] mock_subgraphs))
       = timeout_answer
   \<and> llm_error (fst (generate_answer default_config timeout_service [] mock_subgraphs))
       = Some (u ''Ollama request timed out'')
   \<and> llm_answer (fst (generate_answer default_config refusing_service [] mock_subgraphs))
       = error_answer
   \<and> llm_error (fst (generate_answer default_config refusing_service [] mock_subgraphs))
       = Some (u ''Error calling Ollama: '' @ u ''Connection refused'')
   \<and> llm_answer (fst (generate_answer default_config erroring_service [] mock_subgraphs))
       = error_answer
   \<and> llm_error (fst (generate_answer default_config erroring_service [] mock_subgraphs))
       = Some (u ''Ollama API error: '' @ u ''500'')"
proof -
  have s500: "str_int 500 = u ''500''" by code_simp
  show ?thesis
    using generate_answer_service_failure [OF mock_subgraphs_nonempty,
            of timeout_service default_config "[]" "Timeout (u ''Read timed out.'')"]
      generate_answer_service_failure [OF mock_subgraphs_nonempty,
            of refusing_service default_config "[]" "Exception (u ''Connection refused'')"]
      generate_answer_service_failure [OF mock_subgraphs_nonempty,
            of erroring_service default_config "[]" _ 500 "BodyObject None"]
    by (simp add: timeout_service_def refusing_service_def erroring_service_def
          mock_subgraphs_nonempty s500)
qed

text \<open>
  Claim C8. For every candidate list, and a configured maximum context length that is not
  negative, the string that \<open>format_context\<close> returns is at most the configured maximum
  plus the length of the truncation marker (15 characters) long.
\<close>

theorem format_context_bounded:
  assumes "0 \<le> MAX_CONTEXT_LENGTH cfg"
  shows "int (length (format_context cfg subgraphs))
           \<le> MAX_CONTEXT_LENGTH cfg + int (length truncation_marker)"
  using assms by (auto simp: format_context_def Let_def slice_to_def)

theorem format_context_bounded_witness:
  "0 \<le> MAX_CONTEXT_LENGTH (default_config\<lparr>MAX_CONTEXT_LENGTH := 100\<rparr>)
   \<and> int (length (format_context (default_config\<lparr>MAX_CONTEXT_LENGTH := 100\<rparr>) mock_subgraphs))
       \<le> MAX_CONTEXT_LENGTH (default_config\<lparr>MAX_CONTEXT_LENGTH := 100\<rparr>)
           + int (length truncation_marker)
   \<and> length (format_context (default_config\<lparr>MAX_CONTEXT_LENGTH := 100\<rparr>) mock_subgraphs) = 115
   \<and> length truncation_marker = 15"
proof -
  have h: "0 \<le> MAX_CONTEXT_LENGTH (default_config\<lparr>MAX_CONTEXT_LENGTH := 100\<rparr>)"
    by simp
  have l: "length (format_context (default_config\<lparr>MAX_CONTEXT_LENGTH := 100\<rparr>) mock_subgraphs)
             = 115"
    by (simp add: format_context_def Let_def slice_to_def mock_subgraphs_def context_block_def
          mk_subgraph_def truncation_marker_def nl_def u_def)
  from h format_context_bounded [OF h, of mock_subgraphs] l length_truncation_marker
  show ?thesis by blast
qed

section \<open>Properties of vector search\<close>

lemma build_subgraph_context_Inr:
  "build_subgraph_context vs s = Inr sg \<Longrightarrow> sect.truncate sg = s \<and> cross_encoder_score sg = None
     \<and> get_section_entities vs (substance_name s) (section_name s) = Inr (entities sg)"
  by (auto simp: build_subgraph_context_def sect.truncate_def split: sum.splits)

lemma build_subgraphs_Inr:
  "build_subgraphs vs ss = Inr sgs \<Longrightarrow> map sect.truncate sgs = ss"
proof (induction ss arbitrary: sgs)
  case Nil
  then show ?case by simp
next
  case (Cons s ss)
  then show ?case
    by (auto split: sum.splits dest: build_subgraph_context_Inr)
qed

lemma similarity_score_truncate: "similarity_score (sect.truncate sg) = similarity_score sg"
  by (simp add: sect.truncate_def)

lemma search_with_subgraphs_Inr:
  assumes "vector_search cfg vs q top_k = Inr raw"
    and "search_with_subgraphs cfg vs q top_k = Inr out"
  shows "map sect.truncate out = above_threshold cfg raw"
  using assms
  by (auto simp: search_with_subgraphs_def Let_def split: if_splits dest: build_subgraphs_Inr)

text \<open>
  Claim C4. Whenever \<open>search_with_subgraphs\<close> returns, every subgraph it returns has a
  similarity score of at least the configured minimum, no raw result of \<open>vector_search\<close>
  with a score strictly below the minimum is among them, and the returned subgraphs are
  exactly the raw results at or above the minimum, in their order. With the similarities
  0.85, 0.72 and 0.40, all three survive the threshold 0.3 and two survive 0.5.
\<close>

theorem search_with_subgraphs_threshold:
  assumes "vector_search cfg vs q top_k = Inr raw"
    and "search_with_subgraphs cfg vs q top_k = Inr out"
  shows "(\<forall>sg \<in> set out. MIN_SIMILARITY_THRESHOLD cfg \<le> similarity_score sg)
       \<and> (\<forall>s \<in> set raw. similarity_score s < MIN_SIMILARITY_THRESHOLD cfg
             \<longrightarrow> s \<notin> set (map sect.truncate out))
       \<and> map sect.truncate out =
           filter (\<lambda>s. MIN_SIMILARITY_THRESHOLD cfg \<le> similarity_score s) raw"
proof -
  have eq: "map sect.truncate out =
      filter (\<lambda>s. MIN_SIMILARITY_THRESHOLD cfg \<le> similarity_score s) raw"
    using search_with_subgraphs_Inr [OF assms] by (simp add: above_threshold_def)
  have "MIN_SIMILARITY_THRESHOLD cfg \<le> similarity_score sg" if "sg \<in> set out" for sg
  proof -
    from that have "sect.truncate sg \<in> set (map sect.truncate out)" by simp
    then have "MIN_SIMILARITY_THRESHOLD cfg \<le> similarity_score (sect.truncate sg)"
      unfolding eq by simp
    then show ?thesis by (simp add: similarity_score_truncate)
  qed
  moreover have "s \<notin> set (map sect.truncate out)"
    if "similarity_score s < MIN_SIMILARITY_THRESHOLD cfg" for s
    unfolding eq using that by simp
  ultimately show ?thesis using eq by blast
qed

lemma build_subgraphs_fail:
  "\<exists>s \<in> set ss. isl (get_section_entities vs (substance_name s) (section_name s))
   \<Longrightarrow> \<exists>e. build_subgraphs vs ss = Inl e
        \<and> (\<exists>s \<in> set ss. get_section_entities vs (substance_name s) (section_name s) = Inl e)"
proof (induction ss)
  case Nil
  then show ?case by simp
next
  case (Cons s ss)
  show ?case
  proof (cases "get_section_entities vs (substance_name s) (section_name s)")
    case (Inl e)
    then show ?thesis by (auto simp: build_subgraph_context_def)
  next
    case (Inr ents)
    with Cons.prems have "\<exists>s \<in> set ss. isl (get_section_entities vs (substance_name s) (section_name s))"
      by auto
    from Cons.IH [OF this] obtain e where
      "build_subgraphs vs ss = Inl e"
      "\<exists>s \<in> set ss. get_section_entities vs (substance_name s) (section_name s) = Inl e"
      by blast
    with Inr show ?thesis by (auto simp: build_subgraph_context_def)
  qed
qed

lemma build_subgraphs_ok:
  "\<forall>s \<in> set ss. \<not> isl (get_section_entities vs (substance_name s) (section_name s))
   \<Longrightarrow> \<exists>sgs. build_subgraphs vs ss = Inr sgs \<and> map sect.truncate sgs = ss
        \<and> map (\<lambda>sg. Inr (entities sg)) sgs = map (\<lambda>s. get_section_entities vs (substance_name s) (section_name s)) ss"
proof (induction ss)
  case Nil
  then show ?case by simp
next
  case (Cons s ss)
  then obtain ents where e: "get_section_entities vs (substance_name s) (section_name s) = Inr ents"
    by (cases "get_section_entities vs (substance_name s) (section_name s)") auto
  from Cons obtain sgs where "build_subgraphs vs ss = Inr sgs" "map sect.truncate sgs = ss"
     "map (\<lambda>sg. Inr (entities sg)) sgs = map (\<lambda>s. get_section_entities vs (substance_name s) (section_name s)) ss"
    by auto
  with e show ?case by (auto simp: build_subgraph_context_def sect.truncate_def)
qed


lemma mock_vector_search:
  "vector_search cfg mock_searcher q k = Inr (map section_of_row mock_rows)"
  by (simp add: vector_search_def generate_query_embedding_def mock_searcher_def)

lemma failing_vector_search:
  "vector_search cfg failing_lookup_searcher q k = Inr (map section_of_row mock_rows)"
  by (simp add: vector_search_def generate_query_embedding_def mock_searcher_def
        failing_lookup_searcher_def)

lemma mock_search_03:
  "search_with_subgraphs default_config mock_searcher q k = Inr mock_subgraphs"
  unfolding search_with_subgraphs_def mock_vector_search
  by (simp add: above_threshold_def
        default_config_def mock_rows_def mk_row_def section_of_row_def
        build_subgraph_context_def get_section_entities_def mock_searcher_def
        mock_subgraphs_def mk_subgraph_def)

lemma mock_search_05:
  "search_with_subgraphs (default_config\<lparr>MIN_SIMILARITY_THRESHOLD := 0.5\<rparr>) mock_searcher q k
     = Inr (take 2 mock_subgraphs)"
  unfolding search_with_subgraphs_def mock_vector_search
  by (simp add: above_threshold_def
        default_config_def mock_rows_def mk_row_def section_of_row_def
        build_subgraph_context_def get_section_entities_def mock_searcher_def
        mock_subgraphs_def mk_subgraph_def)

theorem search_with_subgraphs_threshold_witness:
  "vector_search (default_config\<lparr>MIN_SIMILARITY_THRESHOLD := 0.5\<rparr>) mock_searcher [] None
     = Inr (map section_of_row mock_rows)
   \<and> search_with_subgraphs (default_config\<lparr>MIN_SIMILARITY_THRESHOLD := 0.5\<rparr>) mock_searcher [] None
     = Inr (take 2 mock_subgraphs)
   \<and> map similarity_score (map section_of_row mock_rows) = [0.85, 0.72, 0.40]
   \<and> map similarity_score (take 2 mock_subgraphs) = [0.85, 0.72]
   \<and> map sect.truncate (take 2 mock_subgraphs) = take 2 (map section_of_row mock_rows)
   \<and> search_with_subgraphs default_config mock_searcher [] None = Inr mock_subgraphs
   \<and> map sect.truncate mock_subgraphs = map section_of_row mock_rows
   \<and> length mock_subgraphs = 3 \<and> length (take 2 mock_subgraphs) = 2"
proof -
  have f5: "filter (\<lambda>s. MIN_SIMILARITY_THRESHOLD (default_config\<lparr>MIN_SIMILARITY_THRESHOLD := 0.5\<rparr>)
                \<le> similarity_score s) (map section_of_row mock_rows)
            = take 2 (map section_of_row mock_rows)"
    by (simp add: mock_rows_def mk_row_def section_of_row_def)
  have f3: "filter (\<lambda>s. MIN_SIMILARITY_THRESHOLD default_config \<le> similarity_score s)
              (map section_of_row mock_rows) = map section_of_row mock_rows"
    by (simp add: mock_rows_def mk_row_def section_of_row_def default_config_def)
  have s: "map similarity_score (map section_of_row mock_rows) = [0.85, 0.72, 0.40]"
    "map similarity_score (take 2 mock_subgraphs) = [0.85, 0.72]"
    "length mock_subgraphs = 3" "length (take 2 mock_subgraphs) = 2"
    by (simp_all add: mock_rows_def mk_row_def section_of_row_def mock_subgraphs_def
          mk_subgraph_def)
  from search_with_subgraphs_threshold
         [OF mock_vector_search [of "default_config\<lparr>MIN_SIMILARITY_THRESHOLD := 0.5\<rparr>" "[]" None]
             mock_search_05 [of "[]" None]]
    search_with_subgraphs_threshold
         [OF mock_vector_search [of default_config "[]" None] mock_search_03 [of "[]" None]]
  have "map sect.truncate (take 2 mock_subgraphs) = take 2 (map section_of_row mock_rows)"
    "map sect.truncate mock_subgraphs = map section_of_row mock_rows"
    unfolding f5 f3 by blast+
  with s mock_vector_search mock_search_05 mock_search_03 show ?thesis by blast
qed

text \<open>
  Claim C7, as stated, fails: \<open>build_subgraph_context\<close> calls the term lookup without a
  handler, so a lookup that raises for one retained section ends \<open>search_with_subgraphs\<close>
  with that exception and no result is returned.
\<close>

theorem search_with_subgraphs_lookup_failure_counterexample:
  "search_with_subgraphs default_config failing_lookup_searcher [] None
     = Inl (Exception (u ''connection lost''))"
  unfolding search_with_subgraphs_def failing_vector_search
  by (simp add: above_threshold_def
        default_config_def mock_rows_def mk_row_def section_of_row_def
        build_subgraph_context_def get_section_entities_def mock_searcher_def
        failing_lookup_searcher_def u_def)

text \<open>
  Claim C7, amended. When the term lookup raises for some retained section,
  \<open>search_with_subgraphs\<close> raises the exception of such a lookup and returns nothing; when
  no lookup of a retained section raises, it returns one subgraph per retained section, in
  order, each with the terms its lookup returned.
\<close>

theorem search_with_subgraphs_lookup_failure:
  assumes "vector_search cfg vs q top_k = Inr raw"
  shows "((\<exists>s \<in> set (above_threshold cfg raw).
             isl (get_section_entities vs (substance_name s) (section_name s)))
          \<longrightarrow> (\<exists>e. search_with_subgraphs cfg vs q top_k = Inl e
                 \<and> (\<exists>s \<in> set (above_threshold cfg raw).
                       get_section_entities vs (substance_name s) (section_name s) = Inl e)))
       \<and> ((\<forall>s \<in> set (above_threshold cfg raw).
             \<not> isl (get_section_entities vs (substance_name s) (section_name s)))
          \<longrightarrow> (\<exists>out. search_with_subgraphs cfg vs q top_k = Inr out
                 \<and> map sect.truncate out = above_threshold cfg raw
                 \<and> map (\<lambda>sg. Inr (entities sg)) out =
                     map (\<lambda>s. get_section_entities vs (substance_name s) (section_name s))
                       (above_threshold cfg raw)))"
proof (intro conjI impI)
  assume f: "\<exists>s \<in> set (above_threshold cfg raw).
             isl (get_section_entities vs (substance_name s) (section_name s))"
  then have ne: "above_threshold cfg raw \<noteq> []" by auto
  from build_subgraphs_fail [OF f] ne assms
  show "\<exists>e. search_with_subgraphs cfg vs q top_k = Inl e
          \<and> (\<exists>s \<in> set (above_threshold cfg raw).
                get_section_entities vs (substance_name s) (section_name s) = Inl e)"
    by (simp add: search_with_subgraphs_def)
next
  assume ok: "\<forall>s \<in> set (above_threshold cfg raw).
             \<not> isl (get_section_entities vs (substance_name s) (section_name s))"
  from build_subgraphs_ok [OF ok] assms
  show "\<exists>out. search_with_subgraphs cfg vs q top_k = Inr out
                 \<and> map sect.truncate out = above_threshold cfg raw
                 \<and> map (\<lambda>sg. Inr (entities sg)) out =
                     map (\<lambda>s. get_section_entities vs (substance_name s) (section_name s))
                       (above_threshold cfg raw)"
    by (cases "above_threshold cfg raw = []") (auto simp: search_with_subgraphs_def)
qed

theorem search_with_subgraphs_lookup_failure_witness:
  "vector_search (default_config\<lparr>MIN_SIMILARITY_THRESHOLD := 0.5\<rparr>) failing_lookup_searcher [] None
     = Inr (map section_of_row mock_rows)
   \<and> get_section_entities failing_lookup_searcher (u ''Asparagus'') (u ''AdverseEffects'')
       = Inl (Exception (u ''connection lost''))
   \<and> isl (search_with_subgraphs (default_config\<lparr>MIN_SIMILARITY_THRESHOLD := 0.5\<rparr>)
            failing_lookup_searcher [] None)
   \<and> above_threshold (default_config\<lparr>MIN_SIMILARITY_THRESHOLD := 0.8\<rparr>) (map section_of_row mock_rows)
       = [section_of_row (mk_row (u ''Safety'') 0.85)]
   \<and> get_section_entities failing_lookup_searcher (u ''Asparagus'') (u ''Safety'') = Inr []
   \<and> \<not> isl (search_with_subgraphs (default_config\<lparr>MIN_SIMILARITY_THRESHOLD := 0.8\<rparr>)
              failing_lookup_searcher [] None)
   \<and> map sect.truncate
        (projr (search_with_subgraphs (default_config\<lparr>MIN_SIMILARITY_THRESHOLD := 0.8\<rparr>)
                 failing_lookup_searcher [] None))
       = [section_of_row (mk_row (u ''Safety'') 0.85)]"
proof -
  have g1: "get_section_entities failing_lookup_searcher (u ''Asparagus'') (u ''AdverseEffects'')
       = Inl (Exception (u ''connection lost''))"
    by (simp add: get_section_entities_def failing_lookup_searcher_def)
  have g2: "get_section_entities failing_lookup_searcher (u ''Asparagus'') (u ''Safety'') = Inr []"
    by (simp add: get_section_entities_def failing_lookup_searcher_def u_def)
  have a5: "above_threshold (default_config\<lparr>MIN_SIMILARITY_THRESHOLD := 0.5\<rparr>)
              (map section_of_row mock_rows)
            = [section_of_row (mk_row (u ''Safety'') 0.85),
               section_of_row (mk_row (u ''AdverseEffects'') 0.72)]"
    by (simp add: above_threshold_def mock_rows_def mk_row_def section_of_row_def)
  have a8: "above_threshold (default_config\<lparr>MIN_SIMILARITY_THRESHOLD := 0.8\<rparr>)
              (map section_of_row mock_rows)
            = [section_of_row (mk_row (u ''Safety'') 0.85)]"
    by (simp add: above_threshold_def mock_rows_def mk_row_def section_of_row_def)
  have n: "substance_name (section_of_row (mk_row x s)) = u ''Asparagus''"
    "section_name (section_of_row (mk_row x s)) = x" for x s
    by (simp_all add: section_of_row_def mk_row_def)
  have "isl (search_with_subgraphs (default_config\<lparr>MIN_SIMILARITY_THRESHOLD := 0.5\<rparr>)
            failing_lookup_searcher [] None)"
    using search_with_subgraphs_lookup_failure
            [OF failing_vector_search [of "default_config\<lparr>MIN_SIMILARITY_THRESHOLD := 0.5\<rparr>" "[]" None]]
    unfolding a5 by (auto simp: n g1)
  moreover have "\<not> isl (search_with_subgraphs (default_config\<lparr>MIN_SIMILARITY_THRESHOLD := 0.8\<rparr>)
              failing_lookup_searcher [] None)
     \<and> map sect.truncate
        (projr (search_with_subgraphs (default_config\<lparr>MIN_SIMILARITY_THRESHOLD := 0.8\<rparr>)
                 failing_lookup_searcher [] None))
       = [section_of_row (mk_row (u ''Safety'') 0.85)]"
    using search_with_subgraphs_lookup_failure
            [OF failing_vector_search [of "default_config\<lparr>MIN_SIMILARITY_THRESHOLD := 0.8\<rparr>" "[]" None]]
    unfolding a8 by (auto simp: n g2)
  ultimately show ?thesis using g1 g2 a8 failing_vector_search by blast
qed

section \<open>Properties of re-ranking\<close>

lemma length_slice_to:
  "int (length (slice_to n xs)) =
     (if 0 \<le> n then min n (int (length xs)) else max 0 (int (length xs) + n))"
  by (auto simp: slice_to_def)

lemma slice_to_take: "\<exists>k. slice_to n xs = take k xs"
  by (auto simp: slice_to_def)

lemma add_scores_frame: "\<exists>c. add_scores h zs r = (h r)\<lparr>cross_encoder_score := c\<rparr>"
proof (induction zs arbitrary: h)
  case Nil
  have "h r = (h r)\<lparr>cross_encoder_score := cross_encoder_score (h r)\<rparr>" by simp
  then show ?case by (metis add_scores.simps(1))
next
  case (Cons z zs)
  obtain a s where z: "z = (a, s)" by (cases z)
  define h2 where "h2 = h(a := (h a)\<lparr>cross_encoder_score := Some s\<rparr>)"
  from Cons [of h2] obtain c where c: "add_scores h2 zs r = (h2 r)\<lparr>cross_encoder_score := c\<rparr>"
    by blast
  have "(h2 r)\<lparr>cross_encoder_score := c\<rparr> = (h r)\<lparr>cross_encoder_score := c\<rparr>"
    by (simp add: h2_def)
  with c have "add_scores h (z # zs) r = (h r)\<lparr>cross_encoder_score := c\<rparr>"
    by (simp add: z h2_def)
  then show ?case by blast
qed

lemma has_score_iff: "has_score h r \<longleftrightarrow> cross_encoder_score (h r) \<noteq> None"
  by (simp add: has_score_def split: option.splits)

lemma add_scores_other: "r \<notin> fst ` set zs \<Longrightarrow> add_scores h zs r = h r"
  by (induction zs arbitrary: h) auto

lemma add_scores_keeps_score: "has_score h r \<Longrightarrow> has_score (add_scores h zs) r"
  by (induction zs arbitrary: h) (auto simp: has_score_iff)

lemma add_scores_has_score: "r \<in> fst ` set zs \<Longrightarrow> has_score (add_scores h zs) r"
proof (induction zs arbitrary: h)
  case Nil
  then show ?case by simp
next
  case (Cons z zs)
  obtain a s where z: "z = (a, s)" by (cases z)
  show ?case
  proof (cases "r \<in> fst ` set zs")
    case True
    then show ?thesis using Cons.IH by (simp add: z)
  next
    case False
    with Cons.prems have "r = a" by (auto simp: z)
    then have "has_score (h(a := (h a)\<lparr>cross_encoder_score := Some s\<rparr>)) r"
      by (simp add: has_score_iff)
    then show ?thesis by (simp add: z add_scores_keeps_score)
  qed
qed

lemma add_scores_distinct:
  "distinct (map fst zs) \<Longrightarrow> (r, s) \<in> set zs
   \<Longrightarrow> cross_encoder_score (add_scores h zs r) = Some s"
proof (induction zs arbitrary: h)
  case Nil
  then show ?case by simp
next
  case (Cons z zs)
  obtain a t where z: "z = (a, t)" by (cases z)
  show ?case
  proof (cases "(r, s) \<in> set zs")
    case True
    with Cons show ?thesis by (simp add: z)
  next
    case False
    with Cons.prems have eq: "a = r" "t = s" by (auto simp: z)
    from Cons.prems have "r \<notin> fst ` set zs" by (auto simp: z eq)
    then show ?thesis by (simp add: z eq add_scores_other)
  qed
qed

lemma sorted_by_score_desc_Inr:
  assumes "sorted_by_score_desc h rs = Inr out"
  shows "list_all (has_score h) rs"
    and "mset out = mset rs"
    and "sorted_wrt (\<ge>) (map (score_of h) out)"
    and "filter (\<lambda>r. score_of h r = s) out = filter (\<lambda>r. score_of h r = s) rs"
proof -
  from assms have all: "list_all (has_score h) rs"
    and out: "out = rev (sort_key (score_of h) (rev rs))"
    by (auto simp: sorted_by_score_desc_def split: if_splits)
  show "list_all (has_score h) rs" by (rule all)
  show "mset out = mset rs" by (simp add: out)
  have "sorted (map (score_of h) (sort_key (score_of h) (rev rs)))" by simp
  then have "sorted_wrt (\<ge>) (rev (map (score_of h) (sort_key (score_of h) (rev rs))))"
    by (simp only: sorted_wrt_rev) 
  then show "sorted_wrt (\<ge>) (map (score_of h) out)" by (simp add: out rev_map)
  have "filter (\<lambda>r. score_of h r = s) out
      = rev (filter (\<lambda>r. score_of h r = s) (sort_key (score_of h) (rev rs)))"
    by (simp add: out rev_filter)
  also have "\<dots> = rev (filter (\<lambda>r. score_of h r = s) (rev rs))"
    by (simp only: sort_key_stable)
  also have "\<dots> = filter (\<lambda>r. score_of h r = s) rs"
    by (simp add: rev_filter)
  finally show "filter (\<lambda>r. score_of h r = s) out = filter (\<lambda>r. score_of h r = s) rs" .
qed

lemma rerank_Inr:
  assumes "rerank cfg predict q h subgraphs top_n = (Inr out, h')"
  shows "(subgraphs = [] \<and> out = [] \<and> h' = h)
       \<or> (\<exists>scores reranked. subgraphs \<noteq> []
            \<and> predict (make_pairs cfg q h subgraphs) = Inr scores
            \<and> h' = add_scores h (zip subgraphs scores)
            \<and> sorted_by_score_desc h' subgraphs = Inr reranked
            \<and> out = slice_to (top_n_or_default cfg top_n) reranked)"
  using assms
  by (auto simp: rerank_def Let_def split: if_splits sum.splits)

lemma rerank_contract:
  assumes "predict (make_pairs cfg q h subgraphs) = Inr scores"
    and "length scores = length subgraphs" and "subgraphs \<noteq> []"
  shows "rerank cfg predict q h subgraphs top_n =
           (Inr (slice_to (top_n_or_default cfg top_n)
                   (rev (sort_key (score_of (add_scores h (zip subgraphs scores))) (rev subgraphs)))),
            add_scores h (zip subgraphs scores))"
proof -
  have "fst ` set (zip subgraphs scores) = set subgraphs"
    using assms(2) by (metis map_fst_zip set_map)
  then have "list_all (has_score (add_scores h (zip subgraphs scores))) subgraphs"
    by (simp add: list_all_iff add_scores_has_score)
  then show ?thesis
    using assms by (simp add: rerank_def sorted_by_score_desc_def Let_def)
qed

text \<open>
  Claim C2, amended. For an empty candidate list \<open>rerank\<close> returns the empty list without
  error, whatever the scorer and \<open>top_n\<close>. When the scorer returns one score per pair,
  \<open>rerank\<close> returns a list whose length is \<open>min(top_n, len(candidates))\<close> for \<open>top_n \<ge> 0\<close>
  (an omitted \<open>top_n\<close> is the configured \<open>TOP_N_RERANKED\<close>) and
  \<open>max(0, len(candidates) + top_n)\<close> for a negative \<open>top_n\<close>.
\<close>

theorem rerank_length:
  "rerank cfg predict q h [] top_n = (Inr [], h)
   \<and> (predict (make_pairs cfg q h subgraphs) = Inr scores \<and> length scores = length subgraphs
        \<longrightarrow> (\<exists>out h'. rerank cfg predict q h subgraphs top_n = (Inr out, h')
              \<and> int (length out) =
                  (if 0 \<le> top_n_or_default cfg top_n
                   then min (top_n_or_default cfg top_n) (int (length subgraphs))
                   else max 0 (int (length subgraphs) + top_n_or_default cfg top_n))))"
proof -
  have empty: "rerank cfg predict q h [] top_n = (Inr [], h)" for top_n
    by (simp add: rerank_def)
  have "\<exists>out h'. rerank cfg predict q h subgraphs top_n = (Inr out, h')
              \<and> int (length out) =
                  (if 0 \<le> top_n_or_default cfg top_n
                   then min (top_n_or_default cfg top_n) (int (length subgraphs))
                   else max 0 (int (length subgraphs) + top_n_or_default cfg top_n))"
    if c: "predict (make_pairs cfg q h subgraphs) = Inr scores" "length scores = length subgraphs"
  proof (cases "subgraphs = []")
    case True
    then show ?thesis by (simp add: empty)
  next
    case False
    show ?thesis
      using rerank_contract [where predict = predict, OF c False, of top_n]
      by (simp only: length_slice_to length_rev length_sort prod.inject sum.inject
            simp_thms ex_simps)
  qed
  with empty show ?thesis by blast
qed

text \<open>
  Claim C3. The list that \<open>rerank\<close> returns is sorted by cross-encoder score, descending,
  and the sort is stable: for every score, the returned candidates with that score are a
  prefix of the input candidates with that score, in input order.
\<close>

theorem rerank_sorted_stable:
  assumes "rerank cfg predict q h subgraphs top_n = (Inr out, h')"
  shows "sorted_wrt (\<ge>) (map (score_of h') out)
       \<and> (\<forall>s. prefix (filter (\<lambda>r. score_of h' r = s) out)
                     (filter (\<lambda>r. score_of h' r = s) subgraphs))"
  using rerank_Inr [OF assms]
proof (elim disjE exE conjE)
  assume "subgraphs = []" "out = []" "h' = h"
  then show ?thesis by simp
next
  fix scores reranked
  assume srt: "sorted_by_score_desc h' subgraphs = Inr reranked"
    and out: "out = slice_to (top_n_or_default cfg top_n) reranked"
  obtain k where k: "out = take k reranked"
    using slice_to_take out by blast
  have "sorted_wrt (\<ge>) (map (score_of h') (take k reranked))"
    using sorted_by_score_desc_Inr(3) [OF srt] by (simp add: take_map [symmetric] sorted_wrt_take)
  moreover have "prefix (filter (\<lambda>r. score_of h' r = s) (take k reranked))
                     (filter (\<lambda>r. score_of h' r = s) subgraphs)" for s
  proof -
    have "prefix (filter (\<lambda>r. score_of h' r = s) (take k reranked))
                 (filter (\<lambda>r. score_of h' r = s) reranked)"
      by (intro filter_mono_prefix take_is_prefix)
    then show ?thesis by (simp only: sorted_by_score_desc_Inr(4) [OF srt])
  qed
  ultimately show ?thesis by (simp add: k)
qed

text \<open>
  Claim C10. When \<open>rerank\<close> returns, every dict of the input list, also one that is cut from
  the returned top-N, has the key \<open>cross_encoder_score\<close>; the returned list holds addresses
  of the input list (the same objects, each at most as often as in the input); every object
  of the heap differs from its old contents in the key \<open>cross_encoder_score\<close> at most; and
  objects outside the input list are unchanged.
\<close>

theorem rerank_mutates_in_place:
  assumes "rerank cfg predict q h subgraphs top_n = (Inr out, h')"
  shows "(\<forall>r \<in> set subgraphs. cross_encoder_score (h' r) \<noteq> None)
       \<and> mset out \<subseteq># mset subgraphs
       \<and> (\<forall>r. \<exists>c. h' r = (h r)\<lparr>cross_encoder_score := c\<rparr>)
       \<and> (\<forall>r. r \<notin> set subgraphs \<longrightarrow> h' r = h r)"
  using rerank_Inr [OF assms]
proof (elim disjE exE conjE)
  assume e: "subgraphs = []" "out = []" "h' = h"
  have "h r = (h r)\<lparr>cross_encoder_score := cross_encoder_score (h r)\<rparr>" for r by simp
  then have "\<forall>r. \<exists>c. h r = (h r)\<lparr>cross_encoder_score := c\<rparr>" by blast
  with e show ?thesis by simp
next
  fix scores reranked
  assume h': "h' = add_scores h (zip subgraphs scores)"
    and srt: "sorted_by_score_desc h' subgraphs = Inr reranked"
    and out: "out = slice_to (top_n_or_default cfg top_n) reranked"
  obtain k where k: "out = take k reranked"
    using slice_to_take out by blast
  have 1: "\<forall>r \<in> set subgraphs. cross_encoder_score (h' r) \<noteq> None"
    using sorted_by_score_desc_Inr(1) [OF srt]
    by (simp add: list_all_iff has_score_iff)
  have "mset (take k reranked) \<subseteq># mset reranked"
    by (metis append_take_drop_id mset_subset_eq_add_left mset_append)
  then have 2: "mset out \<subseteq># mset subgraphs"
    by (simp add: k sorted_by_score_desc_Inr(2) [OF srt])
  have 3: "\<forall>r. \<exists>c. h' r = (h r)\<lparr>cross_encoder_score := c\<rparr>"
    unfolding h' using add_scores_frame by blast
  have 4: "\<forall>r. r \<notin> set subgraphs \<longrightarrow> h' r = h r"
  proof (intro allI impI)
    fix r assume "r \<notin> set subgraphs"
    then have "r \<notin> fst ` set (zip subgraphs scores)"
      by (metis image_set in_set_takeD map_fst_zip_take)
    then show "h' r = h r" unfolding h' by (rule add_scores_other)
  qed
  from 1 2 3 4 show ?thesis by blast
qed


text \<open>When the candidates are distinct objects and the scorer returns one score per pair,
  the score stored in each candidate is the score the scorer returned for it.\<close>

lemma rerank_scores:
  assumes "predict (make_pairs cfg q h subgraphs) = Inr scores"
    and "length scores = length subgraphs" and "distinct subgraphs"
  shows "map (\<lambda>r. cross_encoder_score (snd (rerank cfg predict q h subgraphs top_n) r)) subgraphs
           = map Some scores"
proof (cases "subgraphs = []")
  case True
  with assms(2) show ?thesis by simp
next
  case False
  have d: "distinct (map fst (zip subgraphs scores))"
    using assms(2,3) by (simp add: map_fst_zip)
  have "cross_encoder_score (add_scores h (zip subgraphs scores) (subgraphs ! i)) = Some (scores ! i)"
    if "i < length subgraphs" for i
  proof -
    from that assms(2) have "(subgraphs ! i, scores ! i) \<in> set (zip subgraphs scores)"
      by (metis in_set_zip fst_conv snd_conv)
    with d show ?thesis by (rule add_scores_distinct)
  qed
  then show ?thesis
    unfolding rerank_contract [where predict = predict, OF assms(1,2) False]
    using assms(2) by (simp add: list_eq_iff_nth_eq)
qed

lemma mock_rerank_fst:
  "fst (rerank default_config mock_scorer q mock_heap [10, 11, 12] (Some n))
     = Inr (slice_to n [11, 10, 12])"
  by (simp add: rerank_def Let_def mock_scorer_def sorted_by_score_desc_def has_score_def
        score_of_def mock_heap_def top_n_or_default_def)

lemma mock_rerank_heap:
  "map (\<lambda>r. cross_encoder_score (snd (rerank default_config mock_scorer q mock_heap [10, 11, 12] (Some n)) r))
     [10, 11, 12] = [Some 0.6, Some 0.9, Some 0.3]"
  by (simp add: rerank_def Let_def mock_scorer_def sorted_by_score_desc_def has_score_def
        score_of_def mock_heap_def top_n_or_default_def)

lemma tie_rerank_fst:
  "fst (rerank default_config tie_scorer q mock_heap [10, 11, 12] (Some 3)) = Inr [11, 10, 12]"
  by (simp add: rerank_def Let_def tie_scorer_def sorted_by_score_desc_def has_score_def
        score_of_def mock_heap_def top_n_or_default_def slice_to_def)

lemma tie_rerank_scores:
  "map (score_of (snd (rerank default_config tie_scorer q mock_heap [10, 11, 12] (Some 3)))) [10, 11, 12]
     = [0.5, 0.9, 0.5]"
  by (simp add: rerank_def Let_def tie_scorer_def sorted_by_score_desc_def has_score_def
        score_of_def mock_heap_def top_n_or_default_def)

text \<open>
  Claim C2, as stated, fails for a negative \<open>top_n\<close>: \<open>reranked[:top_n]\<close> then drops the last
  elements, so three candidates and \<open>top_n = -1\<close> give two results, not \<open>min(-1, 3)\<close>.
\<close>

theorem rerank_length_counterexample:
  "fst (rerank default_config mock_scorer [] mock_heap [10, 11, 12] (Some (- 1))) = Inr [11, 10]
   \<and> int (length [11, 10 :: nat]) \<noteq> min (- 1) (int (length [10, 11, 12 :: nat]))"
  by (simp add: mock_rerank_fst slice_to_def)

theorem rerank_length_witness:
  "mock_scorer (make_pairs default_config [] mock_heap [10, 11, 12]) = Inr [0.6, 0.9, 0.3]
   \<and> length [0.6, 0.9, 0.3 :: real] = length [10, 11, 12 :: nat]
   \<and> fst (rerank default_config mock_scorer [] mock_heap [10, 11, 12] (Some 2)) = Inr [11, 10]
   \<and> int (length (projr (fst (rerank default_config mock_scorer [] mock_heap [10, 11, 12] (Some 2)))))
       = min 2 (int (length [10, 11, 12 :: nat]))
   \<and> rerank default_config mock_scorer [] mock_heap [] (Some 2) = (Inr [], mock_heap)"
proof -
  have c: "mock_scorer (make_pairs default_config [] mock_heap [10, 11, 12]) = Inr [0.6, 0.9, 0.3]
      \<and> length [0.6, 0.9, 0.3 :: real] = length [10, 11, 12 :: nat]"
    by (simp add: mock_scorer_def)
  have t: "top_n_or_default default_config (Some 2) = 2"
    by (simp add: top_n_or_default_def)
  note r = rerank_length [of default_config mock_scorer "[]" mock_heap "Some 2" "[10, 11, 12]"
             "[0.6, 0.9, 0.3]"]
  from r c obtain out h' where
    "rerank default_config mock_scorer [] mock_heap [10, 11, 12] (Some 2) = (Inr out, h')"
    "int (length out) = min 2 (int (length [10, 11, 12 :: nat]))"
    unfolding t by auto
  then have "int (length (projr (fst (rerank default_config mock_scorer [] mock_heap [10, 11, 12] (Some 2)))))
       = min 2 (int (length [10, 11, 12 :: nat]))"
    by simp
  moreover have "fst (rerank default_config mock_scorer [] mock_heap [10, 11, 12] (Some 2)) = Inr [11, 10]"
    by (simp add: mock_rerank_fst slice_to_def)
  ultimately show ?thesis using c r by blast
qed

theorem rerank_sorted_stable_witness:
  "rerank default_config tie_scorer [] mock_heap [10, 11, 12] (Some 3)
     = (Inr [11, 10, 12], snd (rerank default_config tie_scorer [] mock_heap [10, 11, 12] (Some 3)))
   \<and> map (score_of (snd (rerank default_config tie_scorer [] mock_heap [10, 11, 12] (Some 3)))) [10, 11, 12]
       = [0.5, 0.9, 0.5]
   \<and> sorted_wrt (\<ge>)
        (map (score_of (snd (rerank default_config tie_scorer [] mock_heap [10, 11, 12] (Some 3))))
           [11, 10, 12])
   \<and> prefix
        (filter (\<lambda>r. score_of (snd (rerank default_config tie_scorer [] mock_heap [10, 11, 12] (Some 3))) r
                       = 0.5) [11, 10, 12])
        (filter (\<lambda>r. score_of (snd (rerank default_config tie_scorer [] mock_heap [10, 11, 12] (Some 3))) r
                       = 0.5) [10, 11, 12])
   \<and> filter (\<lambda>r. score_of (snd (rerank default_config tie_scorer [] mock_heap [10, 11, 12] (Some 3))) r
                       = 0.5) [11, 10, 12] = [10, 12]"
proof -
  have run: "rerank default_config tie_scorer [] mock_heap [10, 11, 12] (Some 3)
     = (Inr [11, 10, 12], snd (rerank default_config tie_scorer [] mock_heap [10, 11, 12] (Some 3)))"
    using tie_rerank_fst [of "[]"] by (metis prod.collapse)
  have sc: "map (score_of (snd (rerank default_config tie_scorer [] mock_heap [10, 11, 12] (Some 3))))
      [10, 11, 12] = [0.5, 0.9, 0.5]"
    by (rule tie_rerank_scores)
  then have f: "filter (\<lambda>r. score_of (snd (rerank default_config tie_scorer [] mock_heap [10, 11, 12] (Some 3))) r
                       = 0.5) [11, 10, 12] = [10, 12]"
    by simp
  from rerank_sorted_stable [OF run] run sc f show ?thesis by blast
qed

theorem rerank_mutates_in_place_witness:
  "rerank default_config mock_scorer [] mock_heap [10, 11, 12] (Some 2)
     = (Inr [11, 10], snd (rerank default_config mock_scorer [] mock_heap [10, 11, 12] (Some 2)))
   \<and> map (\<lambda>r. cross_encoder_score (snd (rerank default_config mock_scorer [] mock_heap [10, 11, 12] (Some 2)) r))
        [10, 11, 12] = [Some 0.6, Some 0.9, Some 0.3]
   \<and> mset [11, 10] \<subseteq># mset [10, 11, 12 :: nat]
   \<and> snd (rerank default_config mock_scorer [] mock_heap [10, 11, 12] (Some 2)) 7 = mock_heap 7"
proof -
  have run: "rerank default_config mock_scorer [] mock_heap [10, 11, 12] (Some 2)
     = (Inr [11, 10], snd (rerank default_config mock_scorer [] mock_heap [10, 11, 12] (Some 2)))"
    using mock_rerank_fst [of "[]" 2] by (simp add: slice_to_def prod_eq_iff)
  have "(7 :: nat) \<notin> set [10, 11, 12]" by simp
  with rerank_mutates_in_place [OF run]
  have "mset [11, 10] \<subseteq># mset [10, 11, 12 :: nat]"
    "snd (rerank default_config mock_scorer [] mock_heap [10, 11, 12] (Some 2)) 7 = mock_heap 7"
    by blast+
  with run mock_rerank_heap [of "[]" 2] show ?thesis by blast
qed

section \<open>Properties of the orchestrator\<close>








lemma alloc_length: "alloc h n sgs = (h1, refs) \<Longrightarrow> length refs = length sgs"
  by (induction sgs arbitrary: h n h1 refs) (auto split: prod.splits)



















end
